theory Spec2Isabelle
  imports Complex_Main "HOL-Library.Word"
begin

section \<open>Values of the voice bridge (backend/services/voice\_service.py)\<close>

text \<open>
  JSON values: what \<open>json.loads\<close> returns on a client text frame and what
  \<open>websocket.send_json\<close> is given. A Python dict is its list of items.
\<close>

datatype json =
    JNull
  | JBool bool
  | JNum real
  | JStr string
  | JArr "json list"
  | JObj "(string \<times> json) list"

text \<open>
  An attribute of a duck-typed object, or a key of a dict: \<open>hasattr\<close>, \<open>getattr\<close> with a
  default and \<open>key in message\<close> tell a missing one from a present one.
\<close>

datatype 'a attr = Absent | Present 'a

text \<open>
  The exceptions that reach \<open>handle_voice_stream\<close>. \<open>CancelledError\<close> derives from
  \<open>BaseException\<close> only, so \<open>except Exception\<close> does not catch it.
\<close>

datatype exn =
    ConnectionClosedOK
  | JSONDecodeError
  | TypeError
  | AttributeError
  | RuntimeError
  | PlainException string
  | CancelledError

fun is_Exception :: "exn \<Rightarrow> bool" where
  "is_Exception CancelledError = False"
| "is_Exception _ = True"

type_synonym bytes = "8 word list"

text \<open>
  One message returned by \<open>websocket.receive()\<close>: the ASGI dict with its \<open>type\<close> and
  the optional keys \<open>bytes\<close> and \<open>text\<close> (a present key may hold Python's \<open>None\<close>).
  The value under \<open>text\<close> is carried as the outcome of \<open>json.loads\<close> on it: the
  exception it raises, or the decoded value.
\<close>

record ws_message =
  m_type :: string
  m_bytes :: "bytes option attr"
  m_text :: "(exn + json) attr"

text \<open>One \<open>await websocket.receive()\<close>: a message, or the exception it raises.\<close>

datatype recv = Recv ws_message | RecvRaises exn

section \<open>Provider events\<close>

text \<open>
  The objects the Deepgram callbacks put on the queue are probed attribute by
  attribute; a flag holds \<open>True\<close>, \<open>False\<close> or \<open>None\<close>.
\<close>

record alternative =
  transcript :: string
  confidence :: real

record channel =
  alternatives :: "alternative list"

record metadata =
  md_is_final :: "bool option attr"

record event =
  ev_channel :: "channel option attr"
  ev_is_final :: "bool option attr"
  ev_metadata :: "metadata option attr"
  ev_start :: "real attr"
  ev_type :: "string attr"

section \<open>Effects\<close>

datatype level = LDebug | LInfo | LError

datatype task = KeepaliveTask | SendTask

text \<open>
  The calls a coroutine of the bridge makes, in program order: logging, the Deepgram
  connection (\<open>on\<close>, \<open>start\<close>, \<open>send\<close>, \<open>finish\<close>), \<open>asyncio.create_task\<close> and
  \<open>cancel\<close>, \<open>message_queue.put\<close> (\<open>None\<close> is the sentinel) and
  \<open>websocket.send_json\<close>. Log texts keep the constant part of the source's f-strings.
\<close>

datatype action =
    Log level string
  | UpOn string
  | UpStart
  | UpSend "bytes option"
  | UpFinish
  | CreateTask task
  | CancelTask task
  | QueuePut "event option"
  | SendJson "(string \<times> json) list"

section \<open>The audio relay loop\<close>

text \<open>\<open>data.get(key)\<close>: only a dict has \<open>get\<close>; a missing key gives \<open>None\<close>.\<close>

fun json_get :: "json \<Rightarrow> string \<Rightarrow> exn + json option" where
  "json_get (JObj kvs) k = Inr (map_of kvs k)"
| "json_get _ k = Inl AttributeError"

datatype loop_exit = Broke | Raised exn | Pending

text \<open>
  The \<open>while True\<close> loop of \<open>handle_voice_stream\<close> (lines 86 to 99) over the outcomes of
  its successive \<open>receive()\<close> calls. \<open>Pending\<close>: the loop is suspended in
  \<open>receive()\<close> and the client has sent nothing more.
\<close>

fun relay_loop :: "recv list \<Rightarrow> action list \<times> loop_exit" where
  "relay_loop [] = ([], Pending)"
| "relay_loop (RecvRaises e # rest) = ([], Raised e)"
| "relay_loop (Recv message # rest) =
     (if m_type message = ''websocket.disconnect''
      then ([Log LInfo ''Client disconnected.''], Broke)
      else
        (case m_bytes message of
           Present b \<Rightarrow>
             (let (acts, ex) = relay_loop rest in (UpSend b # acts, ex))
         | Absent \<Rightarrow>
             (case m_text message of
                Present loaded \<Rightarrow>
                  (case loaded of
                     Inl e \<Rightarrow> ([], Raised e)
                   | Inr data \<Rightarrow>
                       (case json_get data ''type'' of
                          Inl e \<Rightarrow> ([], Raised e)
                        | Inr v \<Rightarrow>
                            (if v = Some (JStr ''stop_recording'')
                             then
                               (let (acts, ex) = relay_loop rest
                                in (Log LInfo ''Stop recording signal received from client.'' # acts, ex))
                             else relay_loop rest)))
              | Absent \<Rightarrow> relay_loop rest)))"

section \<open>The session handler\<close>

type_synonym websocket = nat

text \<open>\<open>id(websocket)\<close>: an object is modelled by its identity.\<close>

definition py_id :: "websocket \<Rightarrow> nat" where
  "py_id w = w"

text \<open>
  The \<open>try\<close> block (lines 39 to 107): what it does, how it is left, and whether
  \<open>keepalive_task_handle\<close> is in \<open>locals()\<close> by then. \<open>started\<close> is what
  \<open>deepgram_connection.start(options)\<close> returns. The two tasks are seen here through
  \<open>create_task\<close> and \<open>cancel\<close>; the send task is \<open>send_task\<close> below, the keepalive
  task (a \<open>keep_alive()\<close> every four seconds until cancelled) has no effect on the
  handler's own calls.
\<close>

definition try_block :: "bool \<Rightarrow> recv list \<Rightarrow> action list \<times> loop_exit \<times> bool" where
  "try_block started recvs =
     (let setup = [UpOn ''Transcript'', UpOn ''Error'', UpStart] in
      if \<not> started
      then (setup @ [Log LError ''Failed to start Deepgram connection.''],
            Raised (PlainException ''Failed to start Deepgram connection''), False)
      else
        (let spawn = [Log LInfo ''Deepgram connection started successfully'',
                      CreateTask KeepaliveTask, CreateTask SendTask];
             (relayed, ex) = relay_loop recvs
         in case ex of
              Broke \<Rightarrow>
                (setup @ spawn @ relayed @
                   [QueuePut None, CancelTask SendTask, UpFinish,
                    Log LInfo ''Deepgram connection finished.''],
                 Broke, True)
            | Raised e \<Rightarrow> (setup @ spawn @ relayed, Raised e, True)
            | Pending \<Rightarrow> (setup @ spawn @ relayed, Pending, True)))"

datatype status = Returned | Propagated exn | Awaiting

record outcome =
  conns :: "nat \<rightharpoonup> websocket"
  acts :: "action list"
  status :: status

text \<open>The \<open>except\<close> clauses (lines 109 to 112).\<close>

fun except_clauses :: "loop_exit \<Rightarrow> action list \<times> status" where
  "except_clauses Broke = ([], Returned)"
| "except_clauses Pending = ([], Awaiting)"
| "except_clauses (Raised e) =
     (if e = ConnectionClosedOK then ([Log LInfo ''Client connection closed normally.''], Returned)
      else if is_Exception e then ([Log LError ''Voice stream error''], Returned)
      else ([], Propagated e))"

text \<open>The \<open>finally\<close> clause (lines 113 to 118) on the map and the effects.\<close>

definition finally_clause ::
  "(nat \<rightharpoonup> websocket) \<Rightarrow> nat \<Rightarrow> bool \<Rightarrow> (nat \<rightharpoonup> websocket) \<times> action list" where
  "finally_clause active connection_id has_keepalive =
     ((if connection_id \<in> dom active then active(connection_id := None) else active),
      (if has_keepalive then [CancelTask KeepaliveTask] else []) @
        [Log LInfo ''Voice stream handler finished.''])"

text \<open>
  \<open>VoiceService.handle_voice_stream\<close>: \<open>active\<close> is \<open>self.active_connections\<close> at the
  call. While the relay loop is suspended in \<open>receive()\<close> the handler has not left the
  \<open>try\<close> block: status \<open>Awaiting\<close>, no \<open>except\<close> or \<open>finally\<close> clause run yet.
\<close>

definition handle_voice_stream ::
  "(nat \<rightharpoonup> websocket) \<Rightarrow> websocket \<Rightarrow> bool \<Rightarrow> recv list \<Rightarrow> outcome" where
  "handle_voice_stream active ws started recvs =
     (let connection_id = py_id ws;
          active1 = active(connection_id \<mapsto> ws);
          entry = [Log LInfo ''New voice stream connection''];
          (body, ex, has_keepalive) = try_block started recvs
      in if ex = Pending
         then \<lparr>conns = active1, acts = entry @ body, status = Awaiting\<rparr>
         else
           (let (handled, st) = except_clauses ex;
                (active2, fin) = finally_clause active1 connection_id has_keepalive
            in \<lparr>conns = active2, acts = entry @ body @ handled @ fin, status = st\<rparr>))"

section \<open>The event consumer\<close>

text \<open>
  \<open>str.isspace\<close> on the code points below 256 (a character of the transcript is one
  code point): tab to carriage return, the four separators from 28 to 31, space, NEL and
  the no-break space. \<open>text.strip()\<close> drops such characters at both ends.
\<close>

definition is_space :: "char \<Rightarrow> bool" where
  "is_space c =
     (let n = (of_char c :: nat)
      in (9 \<le> n \<and> n \<le> 13) \<or> (28 \<le> n \<and> n \<le> 32) \<or> n = 133 \<or> n = 160)"

definition strip :: "string \<Rightarrow> string" where
  "strip s = rev (dropWhile is_space (rev (dropWhile is_space s)))"

text \<open>Python truth of a flag: \<open>None\<close> and \<open>False\<close> are false.\<close>

fun truthy :: "bool option \<Rightarrow> bool" where
  "truthy (Some True) = True"
| "truthy _ = False"

text \<open>\<open>getattr(obj, 'is_final', False)\<close>.\<close>

fun getattr_flag :: "bool option attr \<Rightarrow> bool option" where
  "getattr_flag Absent = Some False"
| "getattr_flag (Present v) = v"

text \<open>\<open>hasattr(data, 'metadata') and data.metadata\<close>: the object, when there is one.\<close>

fun truthy_object :: "'a option attr \<Rightarrow> 'a option" where
  "truthy_object (Present (Some x)) = Some x"
| "truthy_object _ = None"

text \<open>Lines 135 to 137: the flag of the outbound message.\<close>

definition get_is_final :: "event \<Rightarrow> bool option" where
  "get_is_final data =
     (let is_final = getattr_flag (ev_is_final data)
      in case truthy_object (ev_metadata data) of
           Some md \<Rightarrow> (if \<not> truthy is_final then getattr_flag (md_is_final md) else is_final)
         | None \<Rightarrow> is_final)"

fun flag_json :: "bool option \<Rightarrow> json" where
  "flag_json None = JNull"
| "flag_json (Some b) = JBool b"

text \<open>\<open>getattr(data, 'start', 0)\<close>.\<close>

fun getattr_start :: "real attr \<Rightarrow> real" where
  "getattr_start Absent = 0"
| "getattr_start (Present t) = t"

definition transcript_message :: "string \<Rightarrow> real \<Rightarrow> bool option \<Rightarrow> real \<Rightarrow> (string \<times> json) list" where
  "transcript_message text conf is_final start =
     [(''type'', JStr ''transcript''), (''text'', JStr text), (''confidence'', JNum conf),
      (''is_final'', flag_json is_final), (''timestamp'', JNum start)]"

definition utterance_end_message :: "(string \<times> json) list" where
  "utterance_end_message = [(''type'', JStr ''utterance_end''), (''message'', JStr ''Utterance ended'')]"

definition speech_final_message :: "(string \<times> json) list" where
  "speech_final_message =
     [(''type'', JStr ''speech_final''), (''message'', JStr ''Speech segment completed'')]"

text \<open>
  Lines 127 to 152. \<open>up\<close>: the client connection accepts a send; \<open>send_json\<close>
  raises when it does not. The result is the calls made and whether the block ended
  without an exception.
\<close>

definition transcript_block :: "bool \<Rightarrow> event \<Rightarrow> action list \<times> bool" where
  "transcript_block up data =
     (case truthy_object (ev_channel data) of
        None \<Rightarrow> ([], True)
      | Some ch \<Rightarrow>
          (case alternatives ch of
             [] \<Rightarrow> ([], True)
           | transcript_data # _ \<Rightarrow>
               (let text = transcript transcript_data;
                    conf = confidence transcript_data;
                    is_final = get_is_final data;
                    logged = [Log LInfo ''Transcript'']
                in if strip text \<noteq> []
                   then
                     (let message = transcript_message text conf is_final (getattr_start (ev_start data));
                          sending = logged @
                            [Log LInfo ''Sending transcript message to frontend'', SendJson message]
                      in if \<not> up then (sending, False)
                         else if truthy is_final
                         then (sending @ [Log LInfo ''Final transcript sent to frontend''], True)
                         else (sending, True))
                   else (logged, True))))"

text \<open>Lines 155 to 167.\<close>

definition special_block :: "bool \<Rightarrow> event \<Rightarrow> action list \<times> bool" where
  "special_block up data =
     (case ev_type data of
        Absent \<Rightarrow> ([], True)
      | Present message_type \<Rightarrow>
          (if message_type = ''UtteranceEnd''
           then (if \<not> up then ([SendJson utterance_end_message], False)
                 else ([SendJson utterance_end_message,
                        Log LInfo ''Utterance end signal sent to frontend.''], True))
           else if message_type = ''SpeechFinal''
           then ([SendJson speech_final_message], up)
           else ([], True)))"

text \<open>
  \<open>VoiceService.process_deepgram_message\<close>: the two blocks inside one \<open>try\<close>; an
  exception of either is logged by the \<open>except\<close> clause and the method returns.
\<close>

definition process_deepgram_message :: "bool \<Rightarrow> event \<Rightarrow> action list" where
  "process_deepgram_message up data =
     (let entry = [Log LInfo ''Processing Deepgram message''];
          failed = [Log LError ''Error processing Deepgram message''];
          (first, ok) = transcript_block up data
      in if \<not> ok then entry @ first @ failed
         else
           (let (second, ok') = special_block up data
            in if \<not> ok' then entry @ first @ second @ failed
               else entry @ first @ second))"

datatype task_state = Done | Waiting

text \<open>
  \<open>send_task\<close> (lines 76 to 81) over the items it pops, in queue order. \<open>Waiting\<close>:
  suspended in \<open>message_queue.get()\<close> on an empty queue. The run is that of a task
  left to itself: the handler's \<open>send_task_handle.cancel()\<close> can end it earlier, at
  one of its \<open>await\<close>s.
\<close>

fun send_task :: "bool \<Rightarrow> event option list \<Rightarrow> action list \<times> task_state" where
  "send_task up [] = ([], Waiting)"
| "send_task up (None # rest) = ([], Done)"
| "send_task up (Some message # rest) =
     (let (later, st) = send_task up rest
      in (process_deepgram_message up message @ later, st))"

text \<open>
  The callbacks registered on the Deepgram connection (lines 27 to 37), on the queue's
  content. The queue is unbounded, so \<open>put_nowait\<close> does not raise.
\<close>

definition on_message :: "event option list \<Rightarrow> event \<Rightarrow> event option list \<times> action list" where
  "on_message message_queue result = (message_queue @ [Some result], [])"

definition on_error :: "event option list \<Rightarrow> event \<Rightarrow> event option list \<times> action list" where
  "on_error message_queue error = (message_queue @ [Some error], [Log LError ''Deepgram error''])"

section \<open>Observations on a run\<close>

definition finish_count :: "action list \<Rightarrow> nat" where
  "finish_count as = length (filter (\<lambda>a. a = UpFinish) as)"

definition sentinel_count :: "action list \<Rightarrow> nat" where
  "sentinel_count as = length (filter (\<lambda>a. a = QueuePut None) as)"

fun forwarded :: "action list \<Rightarrow> bytes option list" where
  "forwarded [] = []"
| "forwarded (UpSend b # as) = b # forwarded as"
| "forwarded (_ # as) = forwarded as"

fun is_create :: "action \<Rightarrow> bool" where
  "is_create (CreateTask t) = True"
| "is_create _ = False"

fun is_error_log :: "action \<Rightarrow> bool" where
  "is_error_log (Log LError s) = True"
| "is_error_log _ = False"

text \<open>What the handler has done before its first call of \<open>finish()\<close>.\<close>

definition before_finish :: "action list \<Rightarrow> action list" where
  "before_finish as = takeWhile (\<lambda>a. a \<noteq> UpFinish) as"

fun is_upstream :: "action \<Rightarrow> bool" where
  "is_upstream (UpOn k) = True"
| "is_upstream UpStart = True"
| "is_upstream (UpSend b) = True"
| "is_upstream UpFinish = True"
| "is_upstream _ = False"

text \<open>The messages given to \<open>send_json\<close>, in order, and a field of one.\<close>

fun sent_messages :: "action list \<Rightarrow> (string \<times> json) list list" where
  "sent_messages [] = []"
| "sent_messages (SendJson m # as) = m # sent_messages as"
| "sent_messages (_ # as) = sent_messages as"

definition field :: "string \<Rightarrow> (string \<times> json) list \<Rightarrow> json option" where
  "field k m = map_of m k"

definition is_transcript :: "(string \<times> json) list \<Rightarrow> bool" where
  "is_transcript m = (field ''type'' m = Some (JStr ''transcript''))"

text \<open>\<open>self.active_connections\<close> of a service with no session yet.\<close>

definition no_connections :: "nat \<rightharpoonup> websocket" where
  "no_connections = Map.empty"

text \<open>The frames a client sends.\<close>

definition binary_frame :: "bytes \<Rightarrow> ws_message" where
  "binary_frame b = \<lparr>m_type = ''websocket.receive'', m_bytes = Present (Some b), m_text = Absent\<rparr>"

definition text_frame :: "exn + json \<Rightarrow> ws_message" where
  "text_frame loaded = \<lparr>m_type = ''websocket.receive'', m_bytes = Absent, m_text = Present loaded\<rparr>"

definition disconnect :: ws_message where
  "disconnect = \<lparr>m_type = ''websocket.disconnect'', m_bytes = Absent, m_text = Absent\<rparr>"

definition stop_recording :: ws_message where
  "stop_recording = text_frame (Inr (JObj [(''type'', JStr ''stop_recording'')]))"

text \<open>
  Three events for the examples: an error report of the provider (no channel, type
  \<open>Error\<close>), an interim result whose metadata carries a flag of its own, and a result
  whose transcript is one space.
\<close>

definition error_event :: event where
  "error_event = \<lparr>ev_channel = Absent, ev_is_final = Absent, ev_metadata = Absent,
     ev_start = Absent, ev_type = Present ''Error''\<rparr>"

definition interim_event :: event where
  "interim_event =
     \<lparr>ev_channel = Present (Some \<lparr>alternatives = [\<lparr>transcript = ''hello'', confidence = 1\<rparr>]\<rparr>),
      ev_is_final = Present (Some False),
      ev_metadata = Present (Some \<lparr>md_is_final = Present (Some True)\<rparr>),
      ev_start = Present 2, ev_type = Present ''Results''\<rparr>"

definition blank_event :: event where
  "blank_event =
     \<lparr>ev_channel = Present (Some \<lparr>alternatives = [\<lparr>transcript = '' '', confidence = 0\<rparr>]\<rparr>),
      ev_is_final = Present (Some True), ev_metadata = Absent,
      ev_start = Present 3, ev_type = Present ''Results''\<rparr>"

definition is_error_message :: "(string \<times> json) list \<Rightarrow> bool" where
  "is_error_message m = (field ''type'' m = Some (JStr ''error''))"

section \<open>The relay loop and the handler, by exit\<close>

lemma relay_loop_append:
  "snd (relay_loop xs) = Pending \<Longrightarrow>
     relay_loop (xs @ ys) = (fst (relay_loop xs) @ fst (relay_loop ys), snd (relay_loop ys))"
proof (induction xs rule: relay_loop.induct)
  case 1
  then show ?case by simp
next
  case (2 e rest)
  then show ?case by simp
next
  case (3 message rest)
  then show ?case
    by (auto split: if_splits attr.splits sum.splits prod.splits)
qed

lemma relay_loop_stops:
  "snd (relay_loop xs) \<noteq> Pending \<Longrightarrow> relay_loop (xs @ ys) = relay_loop xs"
proof (induction xs rule: relay_loop.induct)
  case 1
  then show ?case by simp
next
  case (2 e rest)
  then show ?case by simp
next
  case (3 message rest)
  then show ?case
    by (auto split: if_splits attr.splits sum.splits prod.splits)
qed

lemma relay_binary_frames:
  "relay_loop (map (\<lambda>b. Recv (binary_frame b)) bs @ ys) =
     (map (\<lambda>b. UpSend (Some b)) bs @ fst (relay_loop ys), snd (relay_loop ys))"
  by (induction bs) (auto simp: binary_frame_def split: prod.splits)

lemma relay_stop_recording:
  "relay_loop (Recv stop_recording # ys) =
     (Log LInfo ''Stop recording signal received from client.'' # fst (relay_loop ys),
      snd (relay_loop ys))"
  by (simp add: stop_recording_def text_frame_def split: prod.splits)

lemma forwarded_append: "forwarded (xs @ ys) = forwarded xs @ forwarded ys"
  by (induction xs rule: forwarded.induct) auto

lemma forwarded_sends: "forwarded (map (\<lambda>b. UpSend (Some b)) bs) = map Some bs"
  by (induction bs) auto

text \<open>The relay loop only forwards audio and logs.\<close>

lemma relay_loop_actions:
  "a \<in> set (fst (relay_loop recvs)) \<Longrightarrow> (\<exists>b. a = UpSend b) \<or> (\<exists>s. a = Log LInfo s)"
proof (induction recvs arbitrary: a rule: relay_loop.induct)
  case 1
  then show ?case by simp
next
  case (2 e rest)
  then show ?case by simp
next
  case (3 message rest)
  then show ?case
    by (fastforce split: if_splits attr.splits sum.splits prod.splits)
qed

lemma relay_loop_no_finish: "finish_count (fst (relay_loop recvs)) = 0"
  using relay_loop_actions [of UpFinish recvs]
  by (auto simp: finish_count_def filter_empty_conv)

lemma relay_loop_no_sentinel: "sentinel_count (fst (relay_loop recvs)) = 0"
  using relay_loop_actions [of "QueuePut None" recvs]
  by (auto simp: sentinel_count_def filter_empty_conv)

lemma relay_loop_no_create: "filter is_create (fst (relay_loop recvs)) = []"
  using relay_loop_actions [of _ recvs]
  by (fastforce simp: filter_empty_conv)

lemma acts_broke:
  "snd (relay_loop recvs) = Broke \<Longrightarrow>
     acts (handle_voice_stream active ws True recvs) =
       [Log LInfo ''New voice stream connection'', UpOn ''Transcript'', UpOn ''Error'', UpStart,
        Log LInfo ''Deepgram connection started successfully'',
        CreateTask KeepaliveTask, CreateTask SendTask] @
       fst (relay_loop recvs) @
       [QueuePut None, CancelTask SendTask, UpFinish] @
       [Log LInfo ''Deepgram connection finished.'', CancelTask KeepaliveTask,
        Log LInfo ''Voice stream handler finished.'']"
  by (cases "relay_loop recvs")
     (simp add: handle_voice_stream_def try_block_def finally_clause_def Let_def)

lemma acts_raised:
  "snd (relay_loop recvs) = Raised e \<Longrightarrow>
     acts (handle_voice_stream active ws True recvs) =
       [Log LInfo ''New voice stream connection'', UpOn ''Transcript'', UpOn ''Error'', UpStart,
        Log LInfo ''Deepgram connection started successfully'',
        CreateTask KeepaliveTask, CreateTask SendTask] @
       fst (relay_loop recvs) @ fst (except_clauses (Raised e)) @
       [CancelTask KeepaliveTask, Log LInfo ''Voice stream handler finished.'']"
  by (cases "relay_loop recvs")
     (simp add: handle_voice_stream_def try_block_def finally_clause_def Let_def)

lemma acts_pending:
  "snd (relay_loop recvs) = Pending \<Longrightarrow>
     acts (handle_voice_stream active ws True recvs) =
       [Log LInfo ''New voice stream connection'', UpOn ''Transcript'', UpOn ''Error'', UpStart,
        Log LInfo ''Deepgram connection started successfully'',
        CreateTask KeepaliveTask, CreateTask SendTask] @
       fst (relay_loop recvs)"
  by (cases "relay_loop recvs")
     (simp add: handle_voice_stream_def try_block_def finally_clause_def Let_def)

lemma status_started:
  "status (handle_voice_stream active ws True recvs) = snd (except_clauses (snd (relay_loop recvs)))"
  by (cases "snd (relay_loop recvs)")
     (auto simp add: handle_voice_stream_def try_block_def finally_clause_def split: prod.splits)

text \<open>A disconnect message among the client's messages makes the handler leave.\<close>

lemma relay_loop_leaves_on_disconnect:
  "Recv m \<in> set recvs \<Longrightarrow> m_type m = ''websocket.disconnect'' \<Longrightarrow>
     snd (relay_loop recvs) \<noteq> Pending"
proof (induction recvs)
  case Nil
  then show ?case by simp
next
  case (Cons r rest)
  show ?case
  proof (cases r)
    case (RecvRaises e)
    then show ?thesis by simp
  next
    case (Recv message)
    show ?thesis
    proof (cases "Recv m \<in> set rest")
      case True
      with Cons have "snd (relay_loop rest) \<noteq> Pending"
        by simp
      with Recv show ?thesis
        by (auto split: attr.splits sum.splits prod.splits)
    next
      case False
      with Cons.prems Recv have "message = m"
        by simp
      with Recv Cons.prems show ?thesis
        by simp
    qed
  qed
qed

lemma handler_leaves_on_disconnect:
  "Recv m \<in> set recvs \<Longrightarrow> m_type m = ''websocket.disconnect'' \<Longrightarrow>
     status (handle_voice_stream active ws True recvs) \<noteq> Awaiting"
  using relay_loop_leaves_on_disconnect [of m recvs]
  by (cases "snd (relay_loop recvs)") (auto simp: status_started)

lemma finish_count_by_exit:
  "finish_count (acts (handle_voice_stream active ws started recvs)) =
     (if started \<and> snd (relay_loop recvs) = Broke then 1 else 0)"
proof (cases started)
  case False
  then show ?thesis
    by (simp add: handle_voice_stream_def try_block_def finally_clause_def finish_count_def)
next
  case True
  show ?thesis
  proof (cases "snd (relay_loop recvs)")
    case Broke
    with True relay_loop_no_finish [of recvs] show ?thesis
      by (simp add: acts_broke finish_count_def)
  next
    case (Raised e)
    with True relay_loop_no_finish [of recvs] show ?thesis
      by (simp add: acts_raised finish_count_def)
  next
    case Pending
    with True relay_loop_no_finish [of recvs] show ?thesis
      by (simp add: acts_pending finish_count_def)
  qed
qed

lemma send_task_until_sentinel:
  "send_task up (map Some evs @ None # rest) =
     (concat (map (process_deepgram_message up) evs), Done)"
  by (induction evs) (auto split: prod.splits)

lemma forwarded_handle:
  "forwarded (acts (handle_voice_stream active ws True recvs)) = forwarded (fst (relay_loop recvs))"
proof (cases "snd (relay_loop recvs)")
  case Broke
  then show ?thesis by (simp add: acts_broke forwarded_append)
next
  case (Raised e)
  then show ?thesis by (simp add: acts_raised forwarded_append)
next
  case Pending
  then show ?thesis by (simp add: acts_pending forwarded_append)
qed

lemma relay_text_frame_raises:
  "relay_loop (Recv (text_frame (Inl e)) # rest) = ([], Raised e)"
  by (simp add: text_frame_def)

lemma relay_text_frame_object:
  "map_of kvs ''type'' \<noteq> Some (JStr ''stop_recording'') \<Longrightarrow>
     relay_loop (Recv (text_frame (Inr (JObj kvs))) # rest) = relay_loop rest"
  by (simp add: text_frame_def)

lemma relay_text_frame_not_object:
  "\<forall>kvs. data \<noteq> JObj kvs \<Longrightarrow>
     relay_loop (Recv (text_frame (Inr data)) # rest) = ([], Raised AttributeError)"
  by (cases data) (simp_all add: text_frame_def)

section \<open>What the consumer sends\<close>

lemma strip_empty_iff: "strip s = [] \<longleftrightarrow> (\<forall>c\<in>set s. is_space c)"
proof -
  have "strip s = [] \<longleftrightarrow> (\<forall>c\<in>set (dropWhile is_space s). is_space c)"
    by (simp add: strip_def dropWhile_eq_Nil_conv)
  also have "\<dots> \<longleftrightarrow> (\<forall>c\<in>set s. is_space c)"
  proof
    assume all: "\<forall>c\<in>set (dropWhile is_space s). is_space c"
    have "dropWhile is_space s = []"
    proof (rule ccontr)
      assume ne: "dropWhile is_space s \<noteq> []"
      then have "\<not> is_space (hd (dropWhile is_space s))"
        by (rule hd_dropWhile)
      moreover from ne have "hd (dropWhile is_space s) \<in> set (dropWhile is_space s)"
        by (rule hd_in_set)
      ultimately show False using all by blast
    qed
    then show "\<forall>c\<in>set s. is_space c"
      by (simp add: dropWhile_eq_Nil_conv)
  next
    assume "\<forall>c\<in>set s. is_space c"
    then show "\<forall>c\<in>set (dropWhile is_space s). is_space c"
      by (auto dest: set_dropWhileD)
  qed
  finally show ?thesis .
qed

lemma sent_messages_append: "sent_messages (xs @ ys) = sent_messages xs @ sent_messages ys"
  by (induction xs rule: sent_messages.induct) auto

lemma special_block_sent:
  "sent_messages (fst (special_block up data)) =
     (if ev_type data = Present ''UtteranceEnd'' then [utterance_end_message]
      else if ev_type data = Present ''SpeechFinal'' then [speech_final_message]
      else [])"
  by (auto simp: special_block_def split: attr.splits)

lemma special_block_no_transcript:
  "filter is_transcript (sent_messages (fst (special_block up data))) = []"
  by (simp add: special_block_sent is_transcript_def field_def utterance_end_message_def
      speech_final_message_def)

lemma process_sent:
  "sent_messages (process_deepgram_message up data) =
     sent_messages (fst (transcript_block up data)) @
       (if snd (transcript_block up data) then sent_messages (fst (special_block up data)) else [])"
  by (cases "transcript_block up data"; cases "special_block up data")
     (simp add: process_deepgram_message_def sent_messages_append Let_def)

lemma transcript_block_sent:
  "sent_messages (fst (transcript_block up data)) =
     (case truthy_object (ev_channel data) of
        None \<Rightarrow> []
      | Some ch \<Rightarrow>
          (case alternatives ch of
             [] \<Rightarrow> []
           | td # _ \<Rightarrow>
               if strip (transcript td) \<noteq> []
               then [transcript_message (transcript td) (confidence td) (get_is_final data)
                       (getattr_start (ev_start data))]
               else []))"
  by (simp add: transcript_block_def Let_def split: option.splits list.splits)


lemma transcript_message_is_transcript:
  "is_transcript (transcript_message text conf is_final start)"
  by (simp add: is_transcript_def field_def transcript_message_def)

lemma transcript_message_flag:
  "field ''is_final'' (transcript_message text conf is_final start) = Some (flag_json is_final)"
  by (simp add: field_def transcript_message_def)

lemma get_is_final_own:
  "truthy (getattr_flag (ev_is_final data)) \<or> truthy_object (ev_metadata data) = None \<Longrightarrow>
     get_is_final data = getattr_flag (ev_is_final data)"
  by (auto simp: get_is_final_def Let_def split: option.splits)

lemma get_is_final_metadata:
  "\<not> truthy (getattr_flag (ev_is_final data)) \<Longrightarrow> truthy_object (ev_metadata data) = Some md \<Longrightarrow>
     get_is_final data = getattr_flag (md_is_final md)"
  by (simp add: get_is_final_def Let_def)

lemma process_transcripts:
  "filter is_transcript (sent_messages (process_deepgram_message up data)) =
     sent_messages (fst (transcript_block up data))"
proof -
  have "filter is_transcript (sent_messages (fst (transcript_block up data))) =
      sent_messages (fst (transcript_block up data))"
    by (simp add: transcript_block_sent transcript_message_is_transcript
        split: option.splits list.splits)
  then show ?thesis
    by (simp add: process_sent special_block_no_transcript)
qed

section \<open>Teardown of the upstream session\<close>

text \<open>
  C1. The claim: \<open>finish()\<close> is invoked exactly once on every exit path of the handler,
  error paths included. The handler calls it only after the relay loop leaves through
  \<open>break\<close> (see \<open>finish_count_by_exit\<close>). Here the client sends one audio frame and
  then a text frame that is not JSON: \<open>json.loads\<close> raises, the \<open>except\<close> clause logs,
  the handler returns, and \<open>finish()\<close> has been called zero times.
\<close>

theorem finish_skipped_on_decode_error:
  "status (handle_voice_stream no_connections 7 True
       [Recv (binary_frame [1, 2]), Recv (text_frame (Inl JSONDecodeError))]) = Returned
   \<and> finish_count (acts (handle_voice_stream no_connections 7 True
       [Recv (binary_frame [1, 2]), Recv (text_frame (Inl JSONDecodeError))])) = 0"
  by (simp add: handle_voice_stream_def try_block_def finally_clause_def binary_frame_def
      text_frame_def finish_count_def)

section \<open>Text frames that do not decode\<close>

text \<open>
  C2, as claimed: a text frame whose payload is not JSON is logged and ignored, and the
  relay loop goes on. On the code it is not so: after such a frame the handler returns,
  and the audio frame the client sends next is never forwarded.
\<close>

theorem decode_failure_ends_session_counterexample:
  "status (handle_voice_stream no_connections 7 True
      [Recv (text_frame (Inl JSONDecodeError)), Recv (binary_frame [1])]) = Returned
   \<and> forwarded (acts (handle_voice_stream no_connections 7 True
      [Recv (text_frame (Inl JSONDecodeError)), Recv (binary_frame [1])])) = []"
  by (simp add: handle_voice_stream_def try_block_def finally_clause_def binary_frame_def
      text_frame_def)

text \<open>
  C2, as the code has it. While the relay loop is running (it has not stopped on the
  frames \<open>pre\<close>): a text frame on which \<open>json.loads\<close> raises ends the loop with that
  exception, nothing after it is read, the handler logs \<open>Voice stream error\<close>, cancels
  the keepalive task and returns; a text frame that decodes to a value other than an
  object ends the loop with \<open>AttributeError\<close> (no \<open>get\<close>); a text frame that decodes
  to an object whose \<open>type\<close> is not \<open>stop_recording\<close> is skipped without a log
  line and the loop goes on with the frames after it.
\<close>

theorem undecodable_text_frame_ends_session:
  assumes "snd (relay_loop pre) = Pending"
  shows "relay_loop (pre @ Recv (text_frame (Inl JSONDecodeError)) # rest) =
           (fst (relay_loop pre), Raised JSONDecodeError)
    \<and> status (handle_voice_stream active ws True
          (pre @ Recv (text_frame (Inl JSONDecodeError)) # rest)) = Returned
    \<and> acts (handle_voice_stream active ws True
          (pre @ Recv (text_frame (Inl JSONDecodeError)) # rest)) =
        acts (handle_voice_stream active ws True pre) @
          [Log LError ''Voice stream error'', CancelTask KeepaliveTask,
           Log LInfo ''Voice stream handler finished.'']
    \<and> ((\<forall>kvs. data \<noteq> JObj kvs) \<longrightarrow>
          relay_loop (pre @ Recv (text_frame (Inr data)) # rest) =
            (fst (relay_loop pre), Raised AttributeError))
    \<and> (map_of kvs ''type'' \<noteq> Some (JStr ''stop_recording'') \<longrightarrow>
          relay_loop (pre @ Recv (text_frame (Inr (JObj kvs))) # rest) = relay_loop (pre @ rest))"
proof -
  let ?bad = "pre @ Recv (text_frame (Inl JSONDecodeError)) # rest"
  have loop: "relay_loop ?bad = (fst (relay_loop pre), Raised JSONDecodeError)"
    using assms by (simp add: relay_loop_append relay_text_frame_raises del: relay_loop.simps(3))
  then have ex: "snd (relay_loop ?bad) = Raised JSONDecodeError"
    by simp
  have st: "status (handle_voice_stream active ws True ?bad) = Returned"
    by (simp add: status_started ex del: relay_loop.simps(3))
  have tr: "acts (handle_voice_stream active ws True ?bad) =
        acts (handle_voice_stream active ws True pre) @
          [Log LError ''Voice stream error'', CancelTask KeepaliveTask,
           Log LInfo ''Voice stream handler finished.'']"
    using acts_raised [OF ex, of active ws] acts_pending [OF assms, of active ws] loop
    by simp
  have shape: "(\<forall>kvs. data \<noteq> JObj kvs) \<longrightarrow>
          relay_loop (pre @ Recv (text_frame (Inr data)) # rest) =
            (fst (relay_loop pre), Raised AttributeError)"
    using assms
    by (simp add: relay_loop_append relay_text_frame_not_object del: relay_loop.simps(3))
  have ignored: "map_of kvs ''type'' \<noteq> Some (JStr ''stop_recording'') \<longrightarrow>
          relay_loop (pre @ Recv (text_frame (Inr (JObj kvs))) # rest) = relay_loop (pre @ rest)"
    using assms
    by (simp add: relay_loop_append relay_text_frame_object del: relay_loop.simps(3))
  from loop st tr shape ignored show ?thesis
    by blast
qed

theorem undecodable_text_frame_ends_session_witness:
  "snd (relay_loop [Recv (binary_frame [1])]) = Pending
   \<and> map_of [(''type'', JStr ''ping'')] ''type'' \<noteq> Some (JStr ''stop_recording'')
   \<and> relay_loop ([Recv (binary_frame [1])] @
        Recv (text_frame (Inr (JObj [(''type'', JStr ''ping'')]))) # [Recv (binary_frame [2])]) =
       relay_loop ([Recv (binary_frame [1])] @ [Recv (binary_frame [2])])
   \<and> relay_loop ([Recv (binary_frame [1])] @
        Recv (text_frame (Inr (JArr []))) # [Recv (binary_frame [2])]) =
       (fst (relay_loop [Recv (binary_frame [1])]), Raised AttributeError)
   \<and> status (handle_voice_stream no_connections 7 True
        ([Recv (binary_frame [1])] @
           Recv (text_frame (Inl JSONDecodeError)) # [Recv (binary_frame [2])])) = Returned"
proof -
  have h: "snd (relay_loop [Recv (binary_frame [1])]) = Pending"
    by (simp add: binary_frame_def)
  have k: "map_of [(''type'', JStr ''ping'')] ''type'' \<noteq> Some (JStr ''stop_recording'')"
    by simp
  have d: "\<forall>kvs. JArr [] \<noteq> JObj kvs"
    by simp
  from undecodable_text_frame_ends_session
         [OF h, of "[Recv (binary_frame [2])]" no_connections 7 "JArr []" "[(''type'', JStr ''ping'')]"]
       h k d
  show ?thesis by blast
qed

section \<open>The shutdown sentinel\<close>

text \<open>
  C3, as claimed: the sentinel is pushed only after the upstream session has been
  closed. On the code the order is the other one: when the client disconnects, the
  sentinel is already on the queue before \<open>finish()\<close> is called.
\<close>

theorem sentinel_before_finish_counterexample:
  "QueuePut None \<in> set (before_finish (acts (handle_voice_stream no_connections 7 True [Recv disconnect])))"
  by (simp add: handle_voice_stream_def try_block_def finally_clause_def disconnect_def
      before_finish_def)

text \<open>
  C3, as the code has it. When the relay loop leaves through \<open>break\<close> (a disconnect
  message), the handler puts the sentinel on the queue exactly once, then cancels the
  send task, then calls \<open>finish()\<close>, with no other put of the sentinel and no other
  \<open>finish()\<close> before or after; and a send task that pops the sentinel after the events
  \<open>evs\<close> has processed exactly those events and is done, whatever follows on the queue.
\<close>

theorem sentinel_once_then_finish:
  assumes "snd (relay_loop recvs) = Broke"
  shows "(\<exists>pre post.
            acts (handle_voice_stream active ws True recvs) =
              pre @ [QueuePut None, CancelTask SendTask, UpFinish] @ post
            \<and> sentinel_count pre = 0 \<and> finish_count pre = 0
            \<and> sentinel_count post = 0 \<and> finish_count post = 0)
         \<and> sentinel_count (acts (handle_voice_stream active ws True recvs)) = 1
         \<and> send_task up (map Some evs @ None # rest) =
             (concat (map (process_deepgram_message up) evs), Done)"
proof -
  let ?pre = "[Log LInfo ''New voice stream connection'', UpOn ''Transcript'', UpOn ''Error'',
        UpStart, Log LInfo ''Deepgram connection started successfully'',
        CreateTask KeepaliveTask, CreateTask SendTask] @ fst (relay_loop recvs)"
  let ?post = "[Log LInfo ''Deepgram connection finished.'', CancelTask KeepaliveTask,
        Log LInfo ''Voice stream handler finished.'']"
  have split: "acts (handle_voice_stream active ws True recvs) =
      ?pre @ [QueuePut None, CancelTask SendTask, UpFinish] @ ?post"
    using acts_broke [OF assms, of active ws] by simp
  have pre_s: "sentinel_count ?pre = 0"
    using relay_loop_no_sentinel [of recvs] by (simp add: sentinel_count_def)
  have pre_f: "finish_count ?pre = 0"
    using relay_loop_no_finish [of recvs] by (simp add: finish_count_def)
  have post_s: "sentinel_count ?post = 0"
    by (simp add: sentinel_count_def)
  have post_f: "finish_count ?post = 0"
    by (simp add: finish_count_def)
  have once: "sentinel_count (acts (handle_voice_stream active ws True recvs)) = 1"
    using pre_s unfolding split by (simp add: sentinel_count_def)
  from split pre_s pre_f post_s post_f have "\<exists>pre post.
            acts (handle_voice_stream active ws True recvs) =
              pre @ [QueuePut None, CancelTask SendTask, UpFinish] @ post
            \<and> sentinel_count pre = 0 \<and> finish_count pre = 0
            \<and> sentinel_count post = 0 \<and> finish_count post = 0"
    by blast
  with once send_task_until_sentinel show ?thesis by blast
qed

theorem sentinel_once_then_finish_witness:
  "snd (relay_loop [Recv (binary_frame [1]), Recv disconnect]) = Broke
   \<and> sentinel_count (acts (handle_voice_stream no_connections 7 True
         [Recv (binary_frame [1]), Recv disconnect])) = 1
   \<and> send_task True [None] = ([], Done)"
proof -
  have h: "snd (relay_loop [Recv (binary_frame [1]), Recv disconnect]) = Broke"
    by (simp add: binary_frame_def disconnect_def)
  from sentinel_once_then_finish [OF h, of no_connections 7 True "[]" "[]"] h
  show ?thesis by simp
qed

section \<open>The stop-recording control message\<close>

text \<open>
  C4. The claim: on \<open>stop_recording\<close> the relay loop asks the upstream session to
  finalize the utterance. Here the client sends one audio frame and then
  \<open>stop_recording\<close>: compared with the run on the audio frame alone, the handler has
  written one log line more and nothing else; its calls on the Deepgram connection are
  the two registrations, \<open>start\<close> and the one \<open>send\<close>.
\<close>

theorem stop_recording_only_logs:
  "acts (handle_voice_stream no_connections 7 True [Recv (binary_frame [1, 2]), Recv stop_recording]) =
     acts (handle_voice_stream no_connections 7 True [Recv (binary_frame [1, 2])]) @
       [Log LInfo ''Stop recording signal received from client.'']
   \<and> filter is_upstream
       (acts (handle_voice_stream no_connections 7 True [Recv (binary_frame [1, 2]), Recv stop_recording])) =
       [UpOn ''Transcript'', UpOn ''Error'', UpStart, UpSend (Some [1, 2])]"
  by (simp add: handle_voice_stream_def try_block_def finally_clause_def binary_frame_def
      stop_recording_def text_frame_def)

text \<open>
  C5. While the relay loop is running (it has not stopped on the frames \<open>pre\<close>), a
  \<open>stop_recording\<close> message does not end it, nor do the binary frames after it, and
  the audio forwarded to the upstream session is what \<open>pre\<close> forwarded, then every one
  of these binary frames in the order received, then what the frames after them forward.
\<close>

theorem frames_after_stop_recording_forwarded:
  assumes "snd (relay_loop pre) = Pending"
  shows "snd (relay_loop (pre @ [Recv stop_recording])) = Pending
    \<and> snd (relay_loop (pre @ Recv stop_recording # map (\<lambda>b. Recv (binary_frame b)) bs)) = Pending
    \<and> forwarded (acts (handle_voice_stream active ws True
          (pre @ Recv stop_recording # map (\<lambda>b. Recv (binary_frame b)) bs @ rest))) =
        forwarded (fst (relay_loop pre)) @ map Some bs @ forwarded (fst (relay_loop rest))"
proof -
  have one: "snd (relay_loop (pre @ [Recv stop_recording])) = Pending"
    using assms relay_stop_recording [of "[]"]
    by (simp add: relay_loop_append del: relay_loop.simps(3))
  have frames: "relay_loop (Recv stop_recording # map (\<lambda>b. Recv (binary_frame b)) bs @ ys) =
      (Log LInfo ''Stop recording signal received from client.'' #
         map (\<lambda>b. UpSend (Some b)) bs @ fst (relay_loop ys), snd (relay_loop ys))" for ys
    by (simp add: relay_stop_recording relay_binary_frames del: relay_loop.simps(3))
  have two: "snd (relay_loop (pre @ Recv stop_recording # map (\<lambda>b. Recv (binary_frame b)) bs)) = Pending"
    using assms frames [of "[]"] by (simp add: relay_loop_append del: relay_loop.simps(3))
  have three: "forwarded (fst (relay_loop
        (pre @ Recv stop_recording # map (\<lambda>b. Recv (binary_frame b)) bs @ rest))) =
      forwarded (fst (relay_loop pre)) @ map Some bs @ forwarded (fst (relay_loop rest))"
    using assms frames [of rest]
    by (simp add: relay_loop_append forwarded_append forwarded_sends del: relay_loop.simps(3))
  from one two three show ?thesis
    by (simp add: forwarded_handle)
qed

theorem frames_after_stop_recording_forwarded_witness:
  "snd (relay_loop [Recv (binary_frame [1])]) = Pending
   \<and> forwarded (acts (handle_voice_stream no_connections 7 True
        ([Recv (binary_frame [1])] @ Recv stop_recording #
           map (\<lambda>b. Recv (binary_frame b)) [[2], [3]] @ [Recv disconnect]))) =
       [Some [1], Some [2], Some [3]]"
proof -
  have h: "snd (relay_loop [Recv (binary_frame [1])]) = Pending"
    by (simp add: binary_frame_def)
  have a: "forwarded (fst (relay_loop [Recv (binary_frame [1])])) = [Some [1]]"
    by (simp add: binary_frame_def)
  have b: "forwarded (fst (relay_loop [Recv disconnect])) = []"
    by (simp add: disconnect_def)
  from frames_after_stop_recording_forwarded [OF h, of "[[2], [3]]" no_connections 7 "[Recv disconnect]"] h a b
  show ?thesis by simp
qed

section \<open>Provider errors\<close>

text \<open>
  C6, as claimed: an error event of the provider reaches the client as a message of type
  \<open>error\<close>. On the code, the error callback queues the event and the send task, given
  what the callback queued, calls \<open>send_json\<close> not at all.
\<close>

theorem provider_error_counterexample:
  "sent_messages (fst (send_task True (fst (on_error [] error_event)))) = []"
  by (simp add: on_error_def error_event_def process_deepgram_message_def transcript_block_def
      special_block_def)

text \<open>
  C6, as the code has it. The error callback logs the event and appends it to the queue.
  For every event, no message the consumer sends has type \<open>error\<close>; for an event with no
  channel whose type is neither \<open>UtteranceEnd\<close> nor \<open>SpeechFinal\<close>, as an error report
  is, the consumer sends nothing. The send task is not ended by the event: it processes
  it and goes on with the rest of the queue.
\<close>

theorem provider_error_not_forwarded:
  "on_error q ev = (q @ [Some ev], [Log LError ''Deepgram error''])
   \<and> filter is_error_message (sent_messages (process_deepgram_message up ev)) = []
   \<and> (truthy_object (ev_channel ev) = None \<and> ev_type ev \<noteq> Present ''UtteranceEnd''
        \<and> ev_type ev \<noteq> Present ''SpeechFinal'' \<longrightarrow>
      sent_messages (process_deepgram_message up ev) = [])
   \<and> send_task up (Some ev # rest) =
       (process_deepgram_message up ev @ fst (send_task up rest), snd (send_task up rest))"
proof -
  have no_error: "filter is_error_message (sent_messages (process_deepgram_message up ev)) = []"
    by (simp add: process_sent special_block_sent transcript_block_sent is_error_message_def
        field_def transcript_message_def utterance_end_message_def speech_final_message_def
        split: option.splits list.splits)
  have silent: "truthy_object (ev_channel ev) = None \<and> ev_type ev \<noteq> Present ''UtteranceEnd''
        \<and> ev_type ev \<noteq> Present ''SpeechFinal'' \<longrightarrow>
      sent_messages (process_deepgram_message up ev) = []"
    by (simp add: process_sent special_block_sent transcript_block_sent)
  have goes_on: "send_task up (Some ev # rest) =
       (process_deepgram_message up ev @ fst (send_task up rest), snd (send_task up rest))"
    by (simp split: prod.splits)
  from no_error silent goes_on show ?thesis
    by (simp add: on_error_def)
qed

theorem provider_error_not_forwarded_witness:
  "truthy_object (ev_channel error_event) = None
   \<and> ev_type error_event \<noteq> Present ''UtteranceEnd''
   \<and> ev_type error_event \<noteq> Present ''SpeechFinal''
   \<and> sent_messages (process_deepgram_message True error_event) = []
   \<and> snd (send_task True (Some error_event # [Some interim_event])) = Waiting"
proof -
  have h: "truthy_object (ev_channel error_event) = None
      \<and> ev_type error_event \<noteq> Present ''UtteranceEnd''
      \<and> ev_type error_event \<noteq> Present ''SpeechFinal''"
    by (simp add: error_event_def)
  from provider_error_not_forwarded [of "[]" error_event True "[Some interim_event]"] h
  show ?thesis by (simp split: prod.splits)
qed

section \<open>Transcript events\<close>

text \<open>
  C7, as claimed: the \<open>is_final\<close> of the outbound transcript mirrors the flag of the
  source event. On the code, an event whose own flag is \<open>False\<close> and whose metadata
  carries \<open>True\<close> is sent with \<open>is_final\<close> true.
\<close>

theorem is_final_mirror_counterexample:
  "ev_is_final interim_event = Present (Some False)
   \<and> map (field ''is_final'') (sent_messages (process_deepgram_message True interim_event)) =
       [Some (JBool True)]"
  by (simp add: interim_event_def process_deepgram_message_def transcript_block_def
      special_block_def get_is_final_def strip_def is_space_def transcript_message_def field_def)

text \<open>
  C7, as the code has it. For an event with a channel and a first alternative: when
  every character of the text is whitespace (the empty text included), no transcript
  message is sent; otherwise exactly one transcript message is sent, with the text, the
  confidence and the start of the event, and its \<open>is_final\<close> field is the flag computed
  on lines 135 to 137: the event's own flag when that flag is true or the event has no
  metadata object, the flag of the metadata object (\<open>False\<close> when it has none) when the
  own flag is not true and there is a metadata object.
\<close>

theorem transcript_sent_unless_blank:
  assumes "truthy_object (ev_channel data) = Some ch" and "alternatives ch = td # tds"
  shows "((\<forall>c\<in>set (transcript td). is_space c) \<longrightarrow>
            filter is_transcript (sent_messages (process_deepgram_message up data)) = [])
    \<and> (\<not> (\<forall>c\<in>set (transcript td). is_space c) \<longrightarrow>
          filter is_transcript (sent_messages (process_deepgram_message up data)) =
            [transcript_message (transcript td) (confidence td) (get_is_final data)
               (getattr_start (ev_start data))])
    \<and> field ''is_final''
          (transcript_message (transcript td) (confidence td) (get_is_final data)
             (getattr_start (ev_start data))) = Some (flag_json (get_is_final data))
    \<and> (truthy (getattr_flag (ev_is_final data)) \<or> truthy_object (ev_metadata data) = None \<longrightarrow>
          get_is_final data = getattr_flag (ev_is_final data))
    \<and> (\<not> truthy (getattr_flag (ev_is_final data)) \<and> truthy_object (ev_metadata data) = Some md \<longrightarrow>
          get_is_final data = getattr_flag (md_is_final md))"
proof -
  have sent: "filter is_transcript (sent_messages (process_deepgram_message up data)) =
      (if strip (transcript td) \<noteq> []
       then [transcript_message (transcript td) (confidence td) (get_is_final data)
               (getattr_start (ev_start data))]
       else [])"
    using assms by (simp add: process_transcripts transcript_block_sent)
  show ?thesis
    using sent get_is_final_own [of data] get_is_final_metadata [of data md]
    by (simp add: strip_empty_iff transcript_message_flag)
qed

theorem transcript_sent_unless_blank_witness:
  "filter is_transcript (sent_messages (process_deepgram_message True interim_event)) =
       [transcript_message ''hello'' 1 (Some True) 2]
   \<and> get_is_final interim_event = Some True
   \<and> filter is_transcript (sent_messages (process_deepgram_message True blank_event)) = []
   \<and> get_is_final blank_event = Some True"
proof -
  have c1: "truthy_object (ev_channel interim_event) =
      Some \<lparr>alternatives = [\<lparr>transcript = ''hello'', confidence = 1\<rparr>]\<rparr>"
    by (simp add: interim_event_def)
  have a1: "alternatives \<lparr>alternatives = [\<lparr>transcript = ''hello'', confidence = 1\<rparr>]\<rparr> =
      \<lparr>transcript = ''hello'', confidence = 1\<rparr> # []"
    by simp
  have t1: "\<not> (\<forall>c\<in>set (transcript \<lparr>transcript = ''hello'', confidence = 1\<rparr>). is_space c)"
    by (simp add: is_space_def)
  have m1: "\<not> truthy (getattr_flag (ev_is_final interim_event))
      \<and> truthy_object (ev_metadata interim_event) = Some \<lparr>md_is_final = Present (Some True)\<rparr>"
    by (simp add: interim_event_def)
  have s1: "getattr_start (ev_start interim_event) = 2"
    by (simp add: interim_event_def)
  have c2: "truthy_object (ev_channel blank_event) =
      Some \<lparr>alternatives = [\<lparr>transcript = '' '', confidence = 0\<rparr>]\<rparr>"
    by (simp add: blank_event_def)
  have a2: "alternatives \<lparr>alternatives = [\<lparr>transcript = '' '', confidence = 0\<rparr>]\<rparr> =
      \<lparr>transcript = '' '', confidence = 0\<rparr> # []"
    by simp
  have t2: "\<forall>c\<in>set (transcript \<lparr>transcript = '' '', confidence = 0\<rparr>). is_space c"
    by (simp add: is_space_def)
  have m2: "truthy (getattr_flag (ev_is_final blank_event))"
    by (simp add: blank_event_def)
  have f2: "getattr_flag (ev_is_final blank_event) = Some True"
    by (simp add: blank_event_def)
  from transcript_sent_unless_blank [OF c1 a1, of True "\<lparr>md_is_final = Present (Some True)\<rparr>"]
    t1 m1 s1
  have first: "filter is_transcript (sent_messages (process_deepgram_message True interim_event)) =
       [transcript_message ''hello'' 1 (Some True) 2] \<and> get_is_final interim_event = Some True"
    by simp
  from transcript_sent_unless_blank [OF c2 a2, of True] t2 m2 f2
  have second: "filter is_transcript (sent_messages (process_deepgram_message True blank_event)) = []
      \<and> get_is_final blank_event = Some True"
    by simp
  from first second show ?thesis by simp
qed

text \<open>
  C8, as claimed: an event whose own flag is present and \<open>False\<close> yields \<open>is_final\<close>
  false whatever the metadata says. On the code, with \<open>True\<close> in the metadata the result
  is \<open>True\<close>.
\<close>

theorem is_final_fallback_counterexample:
  "ev_is_final interim_event = Present (Some False) \<and> get_is_final interim_event = Some True"
  by (simp add: interim_event_def get_is_final_def)

text \<open>
  C8, as the code has it. For an event whose transcript is sent, the \<open>is_final\<close> field
  of the outbound transcript message is: \<open>True\<close> when the event's own flag is \<open>True\<close>
  (the metadata is not consulted); the flag of the metadata object, \<open>False\<close> when that
  object has none, when the own flag is absent, \<open>None\<close> or \<open>False\<close> and the event has a
  metadata object; the own flag, \<open>False\<close> when absent, when the own flag is not \<open>True\<close>
  and there is no metadata object.
\<close>

theorem is_final_of_outbound_transcript:
  assumes "truthy_object (ev_channel data) = Some ch" and "alternatives ch = td # tds"
    and "strip (transcript td) \<noteq> []"
  shows "map (field ''is_final'')
           (filter is_transcript (sent_messages (process_deepgram_message up data))) =
           [Some (flag_json (get_is_final data))]
    \<and> (ev_is_final data = Present (Some True) \<longrightarrow> get_is_final data = Some True)
    \<and> (ev_is_final data \<noteq> Present (Some True) \<and> truthy_object (ev_metadata data) = Some md \<longrightarrow>
          get_is_final data = getattr_flag (md_is_final md))
    \<and> (ev_is_final data \<noteq> Present (Some True) \<and> truthy_object (ev_metadata data) = None \<longrightarrow>
          get_is_final data = getattr_flag (ev_is_final data))"
proof -
  have own: "truthy (getattr_flag (ev_is_final data)) \<longleftrightarrow> ev_is_final data = Present (Some True)"
    by (cases "ev_is_final data" rule: getattr_flag.cases) (auto elim: truthy.elims)
  have msg: "map (field ''is_final'')
        (filter is_transcript (sent_messages (process_deepgram_message up data))) =
           [Some (flag_json (get_is_final data))]"
    using assms by (simp add: process_transcripts transcript_block_sent transcript_message_flag)
  from own msg get_is_final_own [of data] get_is_final_metadata [of data md]
  show ?thesis by auto
qed

theorem is_final_of_outbound_transcript_witness:
  "strip ''hello'' \<noteq> []
   \<and> map (field ''is_final'')
       (filter is_transcript (sent_messages (process_deepgram_message True interim_event))) =
       [Some (JBool True)]
   \<and> ev_is_final interim_event \<noteq> Present (Some True)
   \<and> get_is_final interim_event = getattr_flag (Present (Some True))"
proof -
  have c1: "truthy_object (ev_channel interim_event) =
      Some \<lparr>alternatives = [\<lparr>transcript = ''hello'', confidence = 1\<rparr>]\<rparr>"
    by (simp add: interim_event_def)
  have a1: "alternatives \<lparr>alternatives = [\<lparr>transcript = ''hello'', confidence = 1\<rparr>]\<rparr> =
      \<lparr>transcript = ''hello'', confidence = 1\<rparr> # []"
    by simp
  have t1: "strip (transcript \<lparr>transcript = ''hello'', confidence = 1\<rparr>) \<noteq> []"
    by (simp add: strip_def is_space_def)
  have m1: "ev_is_final interim_event \<noteq> Present (Some True)
      \<and> truthy_object (ev_metadata interim_event) = Some \<lparr>md_is_final = Present (Some True)\<rparr>"
    by (simp add: interim_event_def)
  from is_final_of_outbound_transcript
         [OF c1 a1 t1, of True "\<lparr>md_is_final = Present (Some True)\<rparr>"] t1 m1
  show ?thesis by simp
qed

section \<open>Failure to open the upstream session\<close>

text \<open>
  C9. When \<open>start\<close> returns false, whatever the client would send: no task is created,
  no audio is forwarded, no message is read from the client (the effects are those of
  a run with no client input at all), both error lines are logged, and the handler
  returns.
\<close>

theorem open_failure_starts_no_loop:
  "filter is_create (acts (handle_voice_stream active ws False recvs)) = []
   \<and> forwarded (acts (handle_voice_stream active ws False recvs)) = []
   \<and> acts (handle_voice_stream active ws False recvs) = acts (handle_voice_stream active ws False [])
   \<and> filter is_error_log (acts (handle_voice_stream active ws False recvs)) =
       [Log LError ''Failed to start Deepgram connection.'', Log LError ''Voice stream error'']
   \<and> status (handle_voice_stream active ws False recvs) = Returned"
  by (simp add: handle_voice_stream_def try_block_def finally_clause_def)

section \<open>The map of active connections\<close>

text \<open>
  C10. While the handler is still suspended in \<open>receive()\<close> the map holds the entry
  stored on entry; once the handler has left, by return or by a propagating
  exception, the map is the one at the call without the key of this connection.
\<close>

theorem connection_entry_lifecycle:
  "(status (handle_voice_stream active ws started recvs) = Awaiting \<longrightarrow>
      conns (handle_voice_stream active ws started recvs) = active(py_id ws \<mapsto> ws))
   \<and> (status (handle_voice_stream active ws started recvs) \<noteq> Awaiting \<longrightarrow>
      conns (handle_voice_stream active ws started recvs) = active(py_id ws := None)
      \<and> py_id ws \<notin> dom (conns (handle_voice_stream active ws started recvs)))"
proof (cases "try_block started recvs")
  case (fields body ex has_keepalive)
  show ?thesis
  proof (cases ex)
    case Pending
    with fields show ?thesis
      by (simp add: handle_voice_stream_def)
  next
    case Broke
    with fields show ?thesis
      by (simp add: handle_voice_stream_def finally_clause_def)
  next
    case (Raised e)
    with fields show ?thesis
      by (simp add: handle_voice_stream_def finally_clause_def)
  qed
qed

theorem connection_entry_lifecycle_witness:
  "status (handle_voice_stream no_connections 7 True []) = Awaiting
   \<and> conns (handle_voice_stream no_connections 7 True []) = no_connections(py_id 7 \<mapsto> 7)
   \<and> status (handle_voice_stream no_connections 7 True [Recv (binary_frame [1]), Recv disconnect])
       \<noteq> Awaiting
   \<and> py_id 7 \<notin> dom (conns (handle_voice_stream no_connections 7 True
       [Recv (binary_frame [1]), Recv disconnect]))"
proof -
  have waiting: "status (handle_voice_stream no_connections 7 True []) = Awaiting"
    by (simp add: handle_voice_stream_def try_block_def)
  have left: "status (handle_voice_stream no_connections 7 True
      [Recv (binary_frame [1]), Recv disconnect]) \<noteq> Awaiting"
    by (simp add: handle_voice_stream_def try_block_def finally_clause_def binary_frame_def
        disconnect_def)
  from waiting left
    connection_entry_lifecycle [of no_connections 7 True "[]"]
    connection_entry_lifecycle [of no_connections 7 True "[Recv (binary_frame [1]), Recv disconnect]"]
  show ?thesis by simp
qed

end
